theory Spec2Isabelle
  imports Main "HOL-Library.Char_ord" "HOL-Library.List_Lexorder" "HOL-Library.Option_ord"
    "HOL-Library.Multiset"
begin

section \<open>Data model\<close>

text \<open>
  The two user controllers (the CRUD controller and \<^verbatim>\<open>user-auth.controller.js\<close>) handle
  User documents of a document store.  A record here is a document as JSON shows it.  A
  JavaScript property that is absent and one that holds \<^verbatim>\<open>undefined\<close> read the same and
  serialise the same (\<^verbatim>\<open>res.send\<close> drops both), so both are \<open>None\<close>.  Timestamps are
  milliseconds, as \<^verbatim>\<open>Date.now()\<close> gives them.
\<close>

record token_info =
  token :: "string option"
  expires :: "int option"

text \<open>
  Modelled from the spec: the User schema (\<^verbatim>\<open>Users.schema.obj\<close>) is not part of the
  sources; the fields are those of the specification's data model.  \<open>uid\<close> is the text
  of the document's \<^verbatim>\<open>_id\<close>, which is an ObjectId: the store makes it for every new
  document, and a query by id casts the text it is given to it.  The record is extensible:
  a document with further fields is a \<open>'a user_scheme\<close>.
\<close>

record user =
  uid :: string
  username :: "string option"
  email :: "string option"
  password :: "string option"
  displayName :: "string option"
  firstName :: "string option"
  lastName :: "string option"
  profileImageURL :: "string option"
  role :: "string option"
  subroles :: "string list"
  verified :: bool
  verification :: "token_info option"
  resetPassword :: "token_info option"
  created :: "int option"
  updated :: "int option"

text \<open>What a handler can throw or a promise can be rejected with.\<close>

datatype js_error =
  Error string
  | TypeError string
  | SyntaxError string
  | MongoError int string
  | ValidationError string

fun message :: "js_error \<Rightarrow> string" where
  "message (Error m) = m"
| "message (TypeError m) = m"
| "message (SyntaxError m) = m"
| "message (MongoError c m) = m"
| "message (ValidationError m) = m"

fun code :: "js_error \<Rightarrow> int option" where
  "code (MongoError c m) = Some c"
| "code e = None"

fun errmsg :: "js_error \<Rightarrow> string option" where
  "errmsg (MongoError c m) = Some m"
| "errmsg e = None"

datatype 'a promise = Resolved 'a | Rejected js_error

text \<open>An outgoing mail, as handed to \<^verbatim>\<open>shared.mail.sendMail\<close>.\<close>

record mail =
  mail_from :: string
  mail_to :: "string option"
  mail_text :: string
  mail_subject :: string

text \<open>
  The response a handler writes: \<^verbatim>\<open>res.status(n).send(body)\<close>.  \<open>NoReply\<close> is a handler
  whose promise is rejected before any response is written.
\<close>

datatype body =
  NoBody
  | ErrorBody string
  | MessageBody string
  | UserBody user
  | UsersBody "user list"
  | RegisteredBody user "string option"

datatype reply = Reply nat body | NoReply js_error

fun status :: "reply \<Rightarrow> nat option" where
  "status (Reply n b) = Some n"
| "status (NoReply e) = None"

text \<open>The persisted users, in the store's natural order, and the mails sent so far.\<close>

record state =
  users :: "user list"
  outbox :: "mail list"

text \<open>
  The application configuration (\<^verbatim>\<open>config/config.js\<close>, not part of the sources) is a
  parameter.  The strength pattern is the predicate \<^verbatim>\<open>passwordStrengthRe.test\<close>.
\<close>

record config =
  allowRegistration :: bool
  defaultUserRole :: string
  passwordStrengthRe :: "string \<Rightarrow> bool"
  invalidPasswordMessage :: string
  emailVerificationTTL :: int
  requireEmailVerification :: bool
  email_from :: string

text \<open>
  What the external collaborators answer during one request: the clock, the auth helpers
  (\<open>hash\<close> is \<^verbatim>\<open>hashPassword\<close>), \<^verbatim>\<open>md5\<close>, \<^verbatim>\<open>toLowerCase\<close>,
  the id of a document made by \<^verbatim>\<open>new Users()\<close>, the regular expression that
  \<^verbatim>\<open>new RegExp(pattern, 'i')\<close> makes (its match on a username, or the SyntaxError thrown
  for a text that is no pattern), and the failures of the store and of the mailer, if any.
\<close>

record world =
  now :: int
  new_id :: string
  unique_token :: string
  generated_url :: string
  hash :: "string option \<Rightarrow> string promise"
  md5 :: "string \<Rightarrow> string"
  lower :: "string \<Rightarrow> string"
  new_RegExp :: "string \<Rightarrow> (string option \<Rightarrow> bool) promise"
  find_error :: "js_error option"
  save_error :: "js_error option"
  mail_error :: "js_error option"

section \<open>JavaScript values\<close>

text \<open>A string is falsy when it is absent or empty.\<close>

definition truthy :: "string option \<Rightarrow> bool" where
  "truthy s = (case s of None \<Rightarrow> False | Some v \<Rightarrow> v \<noteq> [])"

text \<open>String conversion, as in \<^verbatim>\<open>'token=' + undefined\<close> and \<^verbatim>\<open>re.test(undefined)\<close>.\<close>

definition js_string :: "string option \<Rightarrow> string" where
  "js_string s = (case s of None \<Rightarrow> ''undefined'' | Some v \<Rightarrow> v)"

text \<open>\<^verbatim>\<open>a > b\<close> on numbers: false when \<open>b\<close> is \<^verbatim>\<open>undefined\<close> (it converts to NaN).\<close>

definition js_gt :: "int \<Rightarrow> int option \<Rightarrow> bool" where
  "js_gt a b = (case b of None \<Rightarrow> False | Some v \<Rightarrow> a > v)"

text \<open>
  \<^verbatim>\<open>a === b\<close> on the two kinds of value an id comes as: the string of a route parameter
  and the ObjectId of a document.  Strict equality converts nothing: two strings are equal
  when they read the same, an object and a string never are, and two objects only when
  they are one object (the ObjectIds here are each an object of their own).
\<close>

datatype js_value = JString string | JObjectId string

fun strict_equals :: "js_value \<Rightarrow> js_value \<Rightarrow> bool" where
  "strict_equals (JString a) (JString b) = (a = b)"
| "strict_equals (JString a) (JObjectId b) = False"
| "strict_equals (JObjectId a) (JString b) = False"
| "strict_equals (JObjectId a) (JObjectId b) = False"

text \<open>The dotted paths \<^verbatim>\<open>verification.token\<close> and \<^verbatim>\<open>resetPassword.token\<close> of a document.\<close>

definition verification_token :: "'a user_scheme \<Rightarrow> string option" where
  "verification_token u = (case verification u of None \<Rightarrow> None | Some v \<Rightarrow> token v)"

definition resetPassword_token :: "'a user_scheme \<Rightarrow> string option" where
  "resetPassword_token u = (case resetPassword u of None \<Rightarrow> None | Some r \<Rightarrow> token r)"

section \<open>The user store\<close>

text \<open>
  Modelled from the spec: the user store is the external document collection behind the
  \<^verbatim>\<open>Users\<close> model; the sources only call it, through \<^verbatim>\<open>findOne\<close>, \<^verbatim>\<open>find\<close> with
  sort, skip and limit, \<^verbatim>\<open>save\<close> and the bulk \<^verbatim>\<open>update\<close>.  A query is rejected with
  the world's \<open>find_error\<close>, a write with its \<open>save_error\<close>; a rejected write changes
  nothing.  \<^verbatim>\<open>findOne\<close> gives the first matching document, \<^verbatim>\<open>find\<close> all of them.
\<close>

definition Users_findOne :: "world \<Rightarrow> state \<Rightarrow> (user \<Rightarrow> bool) \<Rightarrow> user option promise" where
  "Users_findOne w st q =
     (case find_error w of
        Some e \<Rightarrow> Rejected e
      | None \<Rightarrow> Resolved (List.find q (users st)))"

definition Users_find :: "world \<Rightarrow> state \<Rightarrow> (user \<Rightarrow> bool) \<Rightarrow> user list promise" where
  "Users_find w st q =
     (case find_error w of
        Some e \<Rightarrow> Rejected e
      | None \<Rightarrow> Resolved (filter q (users st)))"

text \<open>
  \<^verbatim>\<open>find(q).sort('username').skip(n).limit(m)\<close>: ascending by username in the store's
  binary string order, a missing username first.  The store refuses a negative skip.
\<close>

definition Users_find_sorted ::
  "world \<Rightarrow> state \<Rightarrow> (user \<Rightarrow> bool) \<Rightarrow> int \<Rightarrow> nat \<Rightarrow> user list promise" where
  "Users_find_sorted w st q skip lim =
     (case find_error w of
        Some e \<Rightarrow> Rejected e
      | None \<Rightarrow>
          if skip < 0 then Rejected (MongoError 2 ''Skip value must be non-negative'')
          else Resolved (take lim (drop (nat skip) (sort_key username (filter q (users st))))))"

text \<open>\<^verbatim>\<open>doc.save()\<close>: the document replaces the one of its id, or is added.\<close>

fun upsert :: "user \<Rightarrow> user list \<Rightarrow> user list" where
  "upsert d [] = [d]"
| "upsert d (x # xs) = (if uid x = uid d then d # xs else x # upsert d xs)"

definition save :: "world \<Rightarrow> state \<Rightarrow> user \<Rightarrow> (state \<times> user) promise" where
  "save w st d =
     (case save_error w of
        Some e \<Rightarrow> Rejected e
      | None \<Rightarrow> Resolved (st\<lparr>users := upsert d (users st)\<rparr>, d))"

text \<open>\<^verbatim>\<open>Users.update(q, {$set: ...}, {multi: true})\<close>: every matching document is changed.\<close>

definition Users_update_multi ::
  "world \<Rightarrow> state \<Rightarrow> (user \<Rightarrow> bool) \<Rightarrow> (user \<Rightarrow> user) \<Rightarrow> state promise" where
  "Users_update_multi w st q f =
     (case save_error w of
        Some e \<Rightarrow> Rejected e
      | None \<Rightarrow> Resolved (st\<lparr>users := map (\<lambda>d. if q d then f d else d) (users st)\<rparr>))"

text \<open>\<^verbatim>\<open>shared.mail.sendMail\<close>: the mail goes out, or the mailer rejects.\<close>

definition sendMail :: "world \<Rightarrow> state \<Rightarrow> mail \<Rightarrow> state promise" where
  "sendMail w st m =
     (case mail_error w of
        Some e \<Rightarrow> Rejected e
      | None \<Rightarrow> Resolved (st\<lparr>outbox := outbox st @ [m]\<rparr>))"

section \<open>The CRUD controller\<close>

definition ADMIN_ROLE_NAME :: string where
  "ADMIN_ROLE_NAME = ''admin''"

definition pageLimit :: nat where
  "pageLimit = 25"

text \<open>
  \<^verbatim>\<open>isSelf\<close> compares \<^verbatim>\<open>user._id\<close> with the id of the route by \<^verbatim>\<open>===\<close>.  The user
  is the document the authentication attached to the request (the handlers call its
  \<^verbatim>\<open>save\<close>), so its \<^verbatim>\<open>_id\<close> is an ObjectId; the id of the route is a string.
\<close>

definition isSelf :: "user \<Rightarrow> string \<Rightarrow> bool" where
  "isSelf u i = (if strict_equals (JObjectId (uid u)) (JString i) then True else False)"

definition isAuthorized :: "user \<Rightarrow> string \<Rightarrow> bool" where
  "isAuthorized u action = (if ADMIN_ROLE_NAME \<in> set (subroles u) then True else False)"

text \<open>
  \<^verbatim>\<open>sanitizeUser\<close>: the copy through JSON is the value itself here; then the password and
  the two tokens are set to \<^verbatim>\<open>undefined\<close>, the tokens only where their object is there.
\<close>

definition sanitizeUser :: "'a user_scheme \<Rightarrow> 'a user_scheme" where
  "sanitizeUser u =
     (let sanitized = u;
          sanitized = sanitized\<lparr>password := None\<rparr>;
          sanitized = (case verification sanitized of
                         Some v \<Rightarrow> sanitized\<lparr>verification := Some (v\<lparr>token := None\<rparr>)\<rparr>
                       | None \<Rightarrow> sanitized);
          sanitized = (case resetPassword sanitized of
                         Some r \<Rightarrow> sanitized\<lparr>resetPassword := Some (r\<lparr>token := None\<rparr>)\<rparr>
                       | None \<Rightarrow> sanitized)
      in sanitized)"

text \<open>
  \<^verbatim>\<open>read\<close>: the executor of the promise (missing id, allowed, not allowed), its
  \<^verbatim>\<open>then\<close> and its \<^verbatim>\<open>catch\<close>.  The \<^verbatim>\<open>then\<close> sends the sanitized \<^verbatim>\<open>user\<close>, which is
  \<^verbatim>\<open>req.user\<close>; the found document only decides between 200 and 404.
\<close>

definition read_then :: "user \<Rightarrow> user option promise \<Rightarrow> reply promise" where
  "read_then u p =
     (case p of
        Rejected e \<Rightarrow> Rejected e
      | Resolved foundUser \<Rightarrow>
          (case foundUser of
             Some f \<Rightarrow> Resolved (Reply 200 (UserBody (sanitizeUser u)))
           | None \<Rightarrow> Rejected (Error ''Not found'')))"

definition read_catch :: "reply promise \<Rightarrow> reply" where
  "read_catch p =
     (case p of
        Resolved r \<Rightarrow> r
      | Rejected e \<Rightarrow>
          if message e = ''Malformed request'' then Reply 400 (ErrorBody (message e))
          else if message e = ''Forbidden'' then Reply 403 NoBody
          else if message e = ''Not found'' then Reply 404 NoBody
          else Reply 500 NoBody)"

definition read :: "world \<Rightarrow> state \<Rightarrow> user \<Rightarrow> string option \<Rightarrow> reply" where
  "read w st u userId =
     (let i = (if truthy userId then userId else None) in
      read_catch (read_then u
        (case i of
           None \<Rightarrow> Rejected (Error ''Malformed request'')
         | Some t \<Rightarrow>
             if isSelf u t \<or> isAuthorized u ''read''
             then Users_findOne w st (\<lambda>d. uid d = t)
             else Rejected (Error ''Forbidden''))))"

text \<open>
  \<^verbatim>\<open>list\<close>: \<open>qpage\<close> is the number the query string's \<^verbatim>\<open>page\<close> reads as, when the
  parameter is there (a query-string value is a string, and any non-empty string is truthy).
  \<^verbatim>\<open>new RegExp\<close> throws on a search text that makes no pattern; \<^verbatim>\<open>list\<close> has no
  \<^verbatim>\<open>try\<close> around it, so then the handler writes no response.  The handlers' log entries
  are not modelled.
\<close>

definition list :: "world \<Rightarrow> state \<Rightarrow> int option \<Rightarrow> string option \<Rightarrow> reply" where
  "list w st qpage qsearch =
     (let page = (case qpage of Some p \<Rightarrow> p | None \<Rightarrow> 1);
          search = (if truthy qsearch then js_string qsearch else []);
          skip = (page - 1) * int pageLimit;
          queryObj = (if search = [] then Resolved (\<lambda>d. True)
                      else (case new_RegExp w (''[a-z]*'' @ search @ ''+?'') of
                              Rejected e \<Rightarrow> Rejected e
                            | Resolved re \<Rightarrow> Resolved (\<lambda>d. re (username d))))
      in case queryObj of
           Rejected e \<Rightarrow> NoReply e
         | Resolved q \<Rightarrow>
             (case Users_find_sorted w st q skip pageLimit of
                Resolved foundUsers \<Rightarrow> Reply 200 (UsersBody (map sanitizeUser foundUsers))
              | Rejected e \<Rightarrow> Reply 500 NoBody))"

text \<open>The records a reply lists, for a reply whose body is a list of users.\<close>

fun reply_users :: "reply \<Rightarrow> user list" where
  "reply_users (Reply n (UsersBody us)) = us"
| "reply_users r = []"

text \<open>
  \<^verbatim>\<open>flushSubroles\<close> starts the bulk update and returns; a failure of the update is only
  logged.  The state returned is the one after the update's callback has run.
\<close>

definition flushSubroles :: "world \<Rightarrow> state \<Rightarrow> string \<Rightarrow> string list \<Rightarrow> state" where
  "flushSubroles w st parentRole subs =
     (case Users_update_multi w st (\<lambda>d. role d = Some parentRole) (\<lambda>d. d\<lparr>subroles := subs\<rparr>) of
        Rejected err \<Rightarrow> st
      | Resolved st' \<Rightarrow> st')"

section \<open>The auth controller\<close>

text \<open>
  The body of a request, field by field as the schema names them; \<open>None\<close> is a field the
  request does not have.
\<close>

record payload =
  p_username :: "string option"
  p_email :: "string option"
  p_password :: "string option"
  p_displayName :: "string option"
  p_firstName :: "string option"
  p_lastName :: "string option"
  p_profileImageURL :: "string option"
  p_role :: "string option"
  p_subroles :: "string list option"
  p_verified :: "bool option"
  p_verification :: "token_info option"
  p_resetPassword :: "token_info option"
  p_created :: "int option"
  p_updated :: "int option"

text \<open>
  \<^verbatim>\<open>mapUser\<close>: \<^verbatim>\<open>new Users()\<close> has the fresh id and no field set; every schema field
  whose value in the body is truthy is copied (an array or an object always is, a string
  when not empty, a boolean when true); then both timestamps are set, over whatever was
  copied.
\<close>

definition mapUser :: "world \<Rightarrow> payload \<Rightarrow> user" where
  "mapUser w b =
     \<lparr>uid = new_id w,
      username = (if truthy (p_username b) then p_username b else None),
      email = (if truthy (p_email b) then p_email b else None),
      password = (if truthy (p_password b) then p_password b else None),
      displayName = (if truthy (p_displayName b) then p_displayName b else None),
      firstName = (if truthy (p_firstName b) then p_firstName b else None),
      lastName = (if truthy (p_lastName b) then p_lastName b else None),
      profileImageURL = (if truthy (p_profileImageURL b) then p_profileImageURL b else None),
      role = (if truthy (p_role b) then p_role b else None),
      subroles = (case p_subroles b of Some l \<Rightarrow> l | None \<Rightarrow> []),
      verified = (p_verified b = Some True),
      verification = p_verification b,
      resetPassword = p_resetPassword b,
      created = Some (now w),
      updated = Some (now w)\<rparr>"

definition isStrongPassword :: "config \<Rightarrow> string option \<Rightarrow> bool" where
  "isStrongPassword cfg pw = passwordStrengthRe cfg (js_string pw)"

text \<open>\<^verbatim>\<open>generateProfileImageURL\<close> throws on an email that is \<^verbatim>\<open>undefined\<close>.\<close>

definition generateProfileImageURL :: "world \<Rightarrow> string option \<Rightarrow> string promise" where
  "generateProfileImageURL w em =
     (case em of
        None \<Rightarrow> Rejected (TypeError ''toLowerCase of undefined'')
      | Some e \<Rightarrow> Resolved (''https://gravatar.com/avatar/'' @ md5 w (lower w e) @ ''?d=identicon''))"

definition sendEmailVerificationEmail :: "config \<Rightarrow> world \<Rightarrow> state \<Rightarrow> user \<Rightarrow> state promise" where
  "sendEmailVerificationEmail cfg w st u =
     (case verification u of
        None \<Rightarrow> Rejected (TypeError ''token of undefined'')
      | Some v \<Rightarrow>
          let url = generated_url w @ ''/verifyEmail;token='' @ js_string (token v);
              emailParams =
                \<lparr>mail_from = email_from cfg, mail_to = email u,
                 mail_text = ''Verify your email by going here: '' @ url,
                 mail_subject = ''Verification Email''\<rparr>
          in sendMail w st emailParams)"

text \<open>\<^verbatim>\<open>sendPasswordChangeEmail\<close> reads \<^verbatim>\<open>user.verification.token\<close> as well.\<close>

definition sendPasswordChangeEmail :: "config \<Rightarrow> world \<Rightarrow> state \<Rightarrow> user \<Rightarrow> state promise" where
  "sendPasswordChangeEmail cfg w st u =
     (case verification u of
        None \<Rightarrow> Rejected (TypeError ''token of undefined'')
      | Some v \<Rightarrow>
          let url = generated_url w @ ''/reset-password;token='' @ js_string (token v);
              emailParams =
                \<lparr>mail_from = email_from cfg, mail_to = email u,
                 mail_text = ''Change your password by going here: '' @ url,
                 mail_subject = ''Change Password''\<rparr>
          in sendMail w st emailParams)"

text \<open>\<^verbatim>\<open>s.split(c)\<close> for a one-character separator, \<^verbatim>\<open>indexOf\<close> and \<^verbatim>\<open>xs[i]\<close>.\<close>

fun js_split :: "char \<Rightarrow> string \<Rightarrow> string list" where
  "js_split c [] = [[]]"
| "js_split c (x # xs) =
     (if x = c then [] # js_split c xs
      else (case js_split c xs of
              w # ws \<Rightarrow> (x # w) # ws
            | [] \<Rightarrow> [[x]]))"

fun indexOf :: "'a list \<Rightarrow> 'a \<Rightarrow> int" where
  "indexOf [] x = - 1"
| "indexOf (y # ys) x =
     (if y = x then 0
      else (let i = indexOf ys x in if i < 0 then - 1 else i + 1))"

definition js_nth :: "'a list \<Rightarrow> int \<Rightarrow> 'a option" where
  "js_nth xs i = (if 0 \<le> i \<and> nat i < length xs then Some (xs ! nat i) else None)"

text \<open>
  \<^verbatim>\<open>register\<close>, the \<^verbatim>\<open>catch\<close> of the save: on code 11000 the word after
  \<^verbatim>\<open>index:\<close> in the error's message names the duplicated index.
\<close>

definition register_save_failed :: "js_error \<Rightarrow> reply" where
  "register_save_failed error =
     (if code error = Some 11000 then
        (case errmsg error of
           None \<Rightarrow> NoReply (TypeError ''split of undefined'')
         | Some m \<Rightarrow>
             let errmsgList = js_split CHR '' '' m;
                 index = js_nth errmsgList (indexOf errmsgList ''index:'' + 1)
             in if index = Some ''username_1''
                then Reply 400 (ErrorBody ''Username is taken'')
                else Reply 500 NoBody)
      else Reply 500 NoBody)"

text \<open>
  \<^verbatim>\<open>register\<close> is an \<^verbatim>\<open>async\<close> function: what is thrown outside its two
  \<^verbatim>\<open>try\<close> blocks (by \<^verbatim>\<open>generateProfileImageURL\<close>, by the awaited
  \<^verbatim>\<open>hashPassword\<close>) rejects its promise and no response is written.
\<close>

definition register :: "config \<Rightarrow> world \<Rightarrow> state \<Rightarrow> payload \<Rightarrow> reply \<times> state" where
  "register cfg w st b =
     (let newUser = mapUser w b in
      case generateProfileImageURL w (email newUser) of
        Rejected e \<Rightarrow> (NoReply e, st)
      | Resolved url \<Rightarrow>
          let newUser = newUser\<lparr>profileImageURL := Some url\<rparr>;
              newUser = newUser\<lparr>role := Some (defaultUserRole cfg)\<rparr>
          in if \<not> allowRegistration cfg then (Reply 500 NoBody, st)
             else if \<not> isStrongPassword cfg (password newUser) then
               (Reply 400 (ErrorBody (''Invalid password: '' @ invalidPasswordMessage cfg)), st)
             else
               (case hash w (password newUser) of
                  Rejected e \<Rightarrow> (NoReply e, st)
                | Resolved h \<Rightarrow>
                    let newUser = newUser\<lparr>password := Some h\<rparr>;
                        newUser = newUser\<lparr>verification :=
                          Some \<lparr>token = Some (unique_token w),
                                expires = Some (now w + emailVerificationTTL cfg)\<rparr>\<rparr>
                    in (case save w st newUser of
                          Rejected error \<Rightarrow> (register_save_failed error, st)
                        | Resolved (st', savedUser) \<Rightarrow>
                            if requireEmailVerification cfg then
                              (case sendEmailVerificationEmail cfg w st' newUser of
                                 Resolved st'' \<Rightarrow> (Reply 201 (RegisteredBody savedUser None), st'')
                               | Rejected e \<Rightarrow>
                                   (Reply 201 (RegisteredBody savedUser
                                      (Some ''Verification email not sent'')), st'))
                            else (Reply 201 (RegisteredBody savedUser None), st'))))"

text \<open>
  \<^verbatim>\<open>verifyEmail\<close>.  The query \<^verbatim>\<open>{'verification.token': token}\<close> matches a document
  whose dotted path reads as the token.
\<close>

definition verifyEmail_catch :: "js_error \<Rightarrow> reply" where
  "verifyEmail_catch error =
     (if message error = ''Token has expired'' then Reply 400 (MessageBody ''Token has expired'')
      else if message error = ''Token invalid'' then Reply 400 (MessageBody ''Token invalid'')
      else Reply 500 NoBody)"

definition verifyEmail :: "world \<Rightarrow> state \<Rightarrow> string option \<Rightarrow> reply \<times> state" where
  "verifyEmail w st tok =
     (case Users_findOne w st (\<lambda>d. verification_token d = tok) of
        Rejected e \<Rightarrow> (verifyEmail_catch e, st)
      | Resolved found \<Rightarrow>
          (case found of
             None \<Rightarrow> (verifyEmail_catch (Error ''Token invalid''), st)
           | Some u \<Rightarrow>
               (case verification u of
                  None \<Rightarrow> (verifyEmail_catch (TypeError ''expires of undefined''), st)
                | Some v \<Rightarrow>
                    if js_gt (now w) (expires v) then
                      (verifyEmail_catch (Error ''Token has expired''), st)
                    else
                      let u = u\<lparr>verification := Some (v\<lparr>expires := None\<rparr>)\<rparr>;
                          u = u\<lparr>verified := True\<rparr>
                      in (case save w st u of
                            Rejected e \<Rightarrow> (verifyEmail_catch e, st)
                          | Resolved (st', savedUser) \<Rightarrow> (Reply 204 NoBody, st')))))"

text \<open>\<^verbatim>\<open>requestChangePasswordEmail\<close>: the \<^verbatim>\<open>catch\<close>, then the chain.\<close>

definition requestChangePasswordEmail_catch :: "js_error \<Rightarrow> reply" where
  "requestChangePasswordEmail_catch error =
     (if message error = ''Missing email'' then Reply 400 (ErrorBody ''Missing email'')
      else if message error = ''Email not found'' then Reply 400 (ErrorBody ''Email not found'')
      else Reply 500 NoBody)"

definition requestChangePasswordEmail ::
  "config \<Rightarrow> world \<Rightarrow> state \<Rightarrow> string option \<Rightarrow> reply \<times> state" where
  "requestChangePasswordEmail cfg w st em =
     (case (if truthy em then Users_find w st (\<lambda>d. email d = em)
            else Rejected (Error ''Missing email'')) of
        Rejected e \<Rightarrow> (requestChangePasswordEmail_catch e, st)
      | Resolved us \<Rightarrow>
          (case us of
             [u] \<Rightarrow>
               let u = u\<lparr>resetPassword :=
                         Some \<lparr>token = Some (unique_token w),
                               expires = Some (now w + emailVerificationTTL cfg)\<rparr>\<rparr>
               in (case save w st u of
                     Rejected e \<Rightarrow> (requestChangePasswordEmail_catch e, st)
                   | Resolved (st', savedUser) \<Rightarrow>
                       (case sendPasswordChangeEmail cfg w st' savedUser of
                          Rejected e \<Rightarrow> (requestChangePasswordEmail_catch e, st')
                        | Resolved st'' \<Rightarrow> (Reply 204 NoBody, st'')))
           | _ \<Rightarrow> (requestChangePasswordEmail_catch (Error ''Email not found''), st)))"

text \<open>
  \<^verbatim>\<open>resetPassword\<close> (the handler; \<open>resetPassword\<close> alone is the document's field): the
  \<^verbatim>\<open>catch\<close>, then the chain.
\<close>

definition resetPassword_catch :: "js_error \<Rightarrow> reply" where
  "resetPassword_catch error =
     (if message error = ''Missing token'' then Reply 400 (ErrorBody ''Missing token'')
      else if message error = ''Missing password'' then Reply 400 (ErrorBody ''Missing password'')
      else if message error = ''Token invalid'' then Reply 400 (ErrorBody ''Token invalid'')
      else if message error = ''Password invalid'' then Reply 400 (ErrorBody ''Password invalid'')
      else if message error = ''Token has expired'' then Reply 400 (ErrorBody ''Token has expired'')
      else Reply 500 NoBody)"

definition resetPassword_handler ::
  "config \<Rightarrow> world \<Rightarrow> state \<Rightarrow> string option \<Rightarrow> string option \<Rightarrow> reply \<times> state" where
  "resetPassword_handler cfg w st pw tok =
     (case (if \<not> truthy pw then Rejected (Error ''Missing password'')
            else if \<not> truthy tok then Rejected (Error ''Missing token'')
            else if isStrongPassword cfg pw then Users_find w st (\<lambda>d. resetPassword_token d = tok)
            else Rejected (Error ''Password invalid'')) of
        Rejected e \<Rightarrow> (resetPassword_catch e, st)
      | Resolved us \<Rightarrow>
          (case us of
             [u] \<Rightarrow>
               (case resetPassword u of
                  None \<Rightarrow> (resetPassword_catch (TypeError ''expires of undefined''), st)
                | Some r \<Rightarrow>
                    if js_gt (now w) (expires r) then
                      (resetPassword_catch (Error ''Token has expired''), st)
                    else
                      (case hash w pw of
                         Rejected e \<Rightarrow> (resetPassword_catch e, st)
                       | Resolved hashed \<Rightarrow>
                           let u = u\<lparr>password := Some hashed\<rparr>;
                               u = u\<lparr>resetPassword := Some \<lparr>token = None, expires = None\<rparr>\<rparr>;
                               u = u\<lparr>verified := True\<rparr>
                           in (case save w st u of
                                 Rejected e \<Rightarrow> (resetPassword_catch e, st)
                               | Resolved (st', savedUser) \<Rightarrow> (Reply 204 NoBody, st'))))
           | _ \<Rightarrow> (resetPassword_catch (Error ''Token invalid''), st)))"

section \<open>Message texts\<close>

text \<open>
  Words put together with single spaces: the shape of a text that \<^verbatim>\<open>split(' ')\<close> takes
  apart into those words again.  It is used to say what an error message reads.
\<close>

fun join_words :: "string list \<Rightarrow> string" where
  "join_words [] = []"
| "join_words [x] = x"
| "join_words (x # y # ys) = x @ CHR '' '' # join_words (y # ys)"

section \<open>Sample data\<close>

definition sample_world :: world where
  "sample_world =
     \<lparr>now = 1000, new_id = ''id9'', unique_token = ''tok-new'',
      generated_url = ''https://example.org'',
      hash = (\<lambda>p. Resolved (''#'' @ js_string p)),
      md5 = (\<lambda>s. ''md5-'' @ s), lower = (\<lambda>s. s),
      new_RegExp = (\<lambda>pat. Resolved (\<lambda>s. True)),
      find_error = None, save_error = None, mail_error = None\<rparr>"

definition alice :: user where
  "alice =
     \<lparr>uid = ''id1'', username = Some ''alice'', email = Some ''alice@example.org'',
      password = Some ''#old'', displayName = None, firstName = None, lastName = None,
      profileImageURL = None, role = Some ''admin'', subroles = [''admin''],
      verified = True,
      verification = Some \<lparr>token = Some ''v-alice'', expires = None\<rparr>,
      resetPassword = None, created = Some 1, updated = Some 1\<rparr>"

definition bob :: user where
  "bob =
     \<lparr>uid = ''id2'', username = Some ''bob'', email = Some ''bob@example.org'',
      password = Some ''#bob'', displayName = None, firstName = None, lastName = None,
      profileImageURL = None, role = Some ''editor'', subroles = [''content''],
      verified = False,
      verification = Some \<lparr>token = Some ''v-bob'', expires = Some 500\<rparr>,
      resetPassword = Some \<lparr>token = Some ''r-bob'', expires = Some 2000\<rparr>,
      created = Some 2, updated = Some 2\<rparr>"

definition sample_state :: state where
  "sample_state = \<lparr>users = [bob, alice], outbox = []\<rparr>"

text \<open>A user without the admin subrole, under an id as the store makes them.\<close>

definition dave :: user where
  "dave =
     \<lparr>uid = ''64b7f0c2a1d3e4f5a6b7c8d9'', username = Some ''dave'',
      email = Some ''dave@example.org'', password = Some ''#dave'', displayName = None,
      firstName = None, lastName = None, profileImageURL = None, role = Some ''user'',
      subroles = [''user''], verified = True, verification = None, resetPassword = None,
      created = Some 3, updated = Some 3\<rparr>"

definition dave_state :: state where
  "dave_state = \<lparr>users = [dave, alice], outbox = []\<rparr>"

text \<open>A store of 52 users, kept in descending order of their usernames.\<close>

definition numbered_user :: "nat \<Rightarrow> user" where
  "numbered_user n =
     alice\<lparr>uid := ''n'' @ replicate n CHR ''i'', username := Some (replicate n CHR ''a'')\<rparr>"

definition big_state :: state where
  "big_state = \<lparr>users = map numbered_user (rev [0..<52]), outbox = []\<rparr>"

text \<open>
  A configuration with the default policy the source describes: upper case, lower case,
  a digit and a symbol, at least 8 characters.
\<close>

definition sample_policy :: "string \<Rightarrow> bool" where
  "sample_policy s =
     (8 \<le> length s
      \<and> list_ex (\<lambda>c. CHR ''A'' \<le> c \<and> c \<le> CHR ''Z'') s
      \<and> list_ex (\<lambda>c. CHR ''a'' \<le> c \<and> c \<le> CHR ''z'') s
      \<and> list_ex (\<lambda>c. CHR ''0'' \<le> c \<and> c \<le> CHR ''9'') s
      \<and> list_ex (\<lambda>c. \<not> (CHR ''A'' \<le> c \<and> c \<le> CHR ''Z'') \<and> \<not> (CHR ''a'' \<le> c \<and> c \<le> CHR ''z'')
                       \<and> \<not> (CHR ''0'' \<le> c \<and> c \<le> CHR ''9'')) s)"

definition sample_config :: config where
  "sample_config =
     \<lparr>allowRegistration = True, defaultUserRole = ''user'',
      passwordStrengthRe = sample_policy,
      invalidPasswordMessage = ''use 8 characters of four kinds'',
      emailVerificationTTL = 3600000, requireEmailVerification = True,
      email_from = ''noreply@example.org''\<rparr>"

definition carol_request :: payload where
  "carol_request =
     \<lparr>p_username = Some ''carol'', p_email = Some ''carol@example.org'',
      p_password = Some ''abc'', p_displayName = None, p_firstName = None,
      p_lastName = None, p_profileImageURL = None, p_role = None, p_subroles = None,
      p_verified = None, p_verification = None, p_resetPassword = None,
      p_created = None, p_updated = None\<rparr>"

text \<open>Worlds whose store refuses the save with a duplicate-key error.\<close>

definition dup_username_world :: world where
  "dup_username_world =
     sample_world\<lparr>save_error := Some (MongoError 11000
       ''E11000 duplicate key error collection: app.users index: username_1 dup key: { : carol }'')\<rparr>"

definition dup_email_world :: world where
  "dup_email_world =
     sample_world\<lparr>save_error := Some (MongoError 11000
       ''E11000 duplicate key error collection: app.users index: email_1 dup key: { : carol@example.org }'')\<rparr>"

section \<open>Properties\<close>

subsection \<open>Sanitizing\<close>

text \<open>
  C1.  For every user record, the sanitized copy has no password, no
  \<^verbatim>\<open>verification.token\<close> and no \<^verbatim>\<open>resetPassword.token\<close>, whether or not the record had
  them; every other field, the expiry times of the two token objects and any further field
  of the document included, is the record's own.
\<close>

theorem sanitizeUser_strips_secrets:
  "password (sanitizeUser u) = None
   \<and> verification_token (sanitizeUser u) = None
   \<and> resetPassword_token (sanitizeUser u) = None
   \<and> map_option token (verification (sanitizeUser u)) = map_option (\<lambda>v. None) (verification u)
   \<and> map_option token (resetPassword (sanitizeUser u)) = map_option (\<lambda>v. None) (resetPassword u)
   \<and> map_option expires (verification (sanitizeUser u)) = map_option expires (verification u)
   \<and> map_option expires (resetPassword (sanitizeUser u)) = map_option expires (resetPassword u)
   \<and> uid (sanitizeUser u) = uid u
   \<and> username (sanitizeUser u) = username u
   \<and> email (sanitizeUser u) = email u
   \<and> displayName (sanitizeUser u) = displayName u
   \<and> firstName (sanitizeUser u) = firstName u
   \<and> lastName (sanitizeUser u) = lastName u
   \<and> profileImageURL (sanitizeUser u) = profileImageURL u
   \<and> role (sanitizeUser u) = role u
   \<and> subroles (sanitizeUser u) = subroles u
   \<and> verified (sanitizeUser u) = verified u
   \<and> created (sanitizeUser u) = created u
   \<and> updated (sanitizeUser u) = updated u
   \<and> user.more (sanitizeUser u) = user.more u"
  by (cases "verification u"; cases "resetPassword u")
     (simp_all add: sanitizeUser_def verification_token_def resetPassword_token_def)

subsection \<open>Reading one user\<close>

text \<open>
  With a present id, the caller's own id never opens the gate: \<^verbatim>\<open>isSelf\<close> is false for
  every user and every id, and the admin subrole alone decides.
\<close>

lemma isSelf_never: "\<not> isSelf u i"
  by (simp add: isSelf_def)

lemma read_present_id:
  "t \<noteq> [] \<Longrightarrow>
   read w st u (Some t) =
     (if ADMIN_ROLE_NAME \<in> set (subroles u)
      then read_catch (read_then u (Users_findOne w st (\<lambda>d. uid d = t)))
      else Reply 403 NoBody)"
  by (simp add: read_def truthy_def isSelf_never isAuthorized_def read_then_def read_catch_def)

lemma read_lookup_status:
  "find_error w = None \<Longrightarrow>
   status (read_catch (read_then u (Users_findOne w st q))) =
     (case List.find q (users st) of Some f \<Rightarrow> Some 200 | None \<Rightarrow> Some 404)"
  by (simp add: read_then_def read_catch_def Users_findOne_def split: option.splits)

text \<open>
  Whenever \<^verbatim>\<open>read\<close> answers a found target, the body is the caller's record.
\<close>

lemma read_success_sends_caller:
  assumes "t \<noteq> []" and "ADMIN_ROLE_NAME \<in> set (subroles u)"
    and "find_error w = None" and "List.find (\<lambda>d. uid d = t) (users st) = Some f"
  shows "read w st u (Some t) = Reply 200 (UserBody (sanitizeUser u))"
  using assms by (simp add: read_present_id read_then_def read_catch_def Users_findOne_def)

text \<open>
  C2.  The claim: an authorized read of an existing target answers 200 with the sanitized
  target.  The handler answers 200 with the sanitized caller.  Here the administrator
  \<open>alice\<close> reads \<open>bob\<close>, who is in the store, and gets her own record back.
\<close>

theorem read_sends_caller_not_target:
  "isAuthorized alice ''read''
   \<and> List.find (\<lambda>d. uid d = ''id2'') (users sample_state) = Some bob
   \<and> read sample_world sample_state alice (Some ''id2'') = Reply 200 (UserBody (sanitizeUser alice))
   \<and> read sample_world sample_state alice (Some ''id2'') \<noteq> Reply 200 (UserBody (sanitizeUser bob))"
  by (simp add: read_def truthy_def isSelf_def isAuthorized_def ADMIN_ROLE_NAME_def
      read_then_def read_catch_def Users_findOne_def sample_world_def sample_state_def
      alice_def bob_def sanitizeUser_def)

text \<open>
  C3.  The claim: a read with a present target id passes the authorization gate exactly
  when the caller's id is the target id or the caller has the admin subrole, and is
  answered 403 when neither holds.  The handler's test of the first, \<^verbatim>\<open>isSelf\<close>, compares
  the caller's ObjectId with the string of the route by \<^verbatim>\<open>===\<close> and is never true.
  Here \<open>dave\<close>, who has no admin subrole, reads the record stored under his own id: the
  text of his id is the target id, the store holds him under it, and the answer is 403.
\<close>

theorem read_self_forbidden:
  "uid dave = ''64b7f0c2a1d3e4f5a6b7c8d9''
   \<and> ADMIN_ROLE_NAME \<notin> set (subroles dave)
   \<and> List.find (\<lambda>d. uid d = ''64b7f0c2a1d3e4f5a6b7c8d9'') (users dave_state) = Some dave
   \<and> isSelf dave ''64b7f0c2a1d3e4f5a6b7c8d9'' = False
   \<and> read sample_world dave_state dave (Some ''64b7f0c2a1d3e4f5a6b7c8d9'') = Reply 403 NoBody"
  by (simp add: read_def truthy_def isSelf_def isAuthorized_def ADMIN_ROLE_NAME_def
      read_then_def read_catch_def dave_state_def dave_def)

subsection \<open>Listing users\<close>

lemma take_drop_nth_range:
  "a + n \<le> length xs \<Longrightarrow> take n (drop a xs) = map (\<lambda>i. xs ! i) [a..<a + n]"
  by (simp add: list_eq_iff_nth_eq)

lemma list_page:
  assumes "find_error w = None" and "\<not> truthy qsearch" and "0 < p"
  shows "list w st (Some p) qsearch =
     Reply 200 (UsersBody (map sanitizeUser
        (take pageLimit (drop (nat ((p - 1) * int pageLimit)) (sort_key username (users st))))))"
  using assms by (simp add: list_def Users_find_sorted_def Let_def pageLimit_def)

text \<open>With distinct keys there is one sorted arrangement of a list, and sorting finds it.\<close>

lemma sort_key_unique:
  assumes "mset ys = mset xs" and "sorted (map f ys)" and "distinct (map f xs)"
  shows "sort_key f xs = ys"
proof -
  have m: "mset (map f ys) = mset (map f xs)"
    using assms(1) by simp
  have d: "distinct (map f ys)"
    using m assms(3) by (metis mset_eq_imp_distinct_iff)
  have s: "set ys = set xs"
    using assms(1) by (metis mset_eq_setD)
  have "map f (sort_key f xs) = map f ys"
  proof (rule sorted_distinct_set_unique)
    show "sorted (map f (sort_key f xs))" by simp
    show "distinct (map f (sort_key f xs))" using assms(3) by (simp add: distinct_map)
    show "sorted (map f ys)" by (rule assms(2))
    show "distinct (map f ys)" by (rule d)
    show "set (map f (sort_key f xs)) = set (map f ys)" using s by simp
  qed
  moreover have "inj_on f (set (sort_key f xs) \<union> set ys)"
    using assms(3) s by (simp add: distinct_map)
  ultimately show ?thesis
    by (simp add: inj_on_map_eq_map)
qed

lemma replicate_le: "n \<le> m \<Longrightarrow> replicate n (c::char) \<le> replicate m c"
proof (induction n arbitrary: m)
  case 0
  then show ?case by simp
next
  case (Suc n)
  then obtain k where "m = Suc k" and "n \<le> k" by (cases m) auto
  with Suc.IH show ?case by simp
qed

lemma username_numbered: "username (numbered_user n) = Some (replicate n CHR ''a'')"
  by (simp add: numbered_user_def)

lemma sorted_numbered: "sorted (map username (map numbered_user [0..<n]))"
  by (simp add: sorted_iff_nth_mono username_numbered replicate_le)

lemma distinct_numbered: "distinct (map username (map numbered_user (rev [0..<n])))"
  by (simp add: distinct_map inj_on_def username_numbered comp_def distinct_rev)

lemma sort_big: "sort_key username (users big_state) = map numbered_user [0..<52]"
proof -
  have "sort_key username (map numbered_user (rev [0..<52])) = map numbered_user [0..<52]"
  proof (rule sort_key_unique)
    show "mset (map numbered_user [0..<52]) = mset (map numbered_user (rev [0..<52]))"
      by (simp only: mset_map mset_rev)
    show "sorted (map username (map numbered_user [0..<52]))"
      by (rule sorted_numbered)
    show "distinct (map username (map numbered_user (rev [0..<52])))"
      by (rule distinct_numbered)
  qed
  then show ?thesis by (simp only: big_state_def state.simps)
qed

lemma len_big: "length (users big_state) = 52"
  by (simp add: big_state_def)

lemma map_nth_upt:
  "b \<le> n \<Longrightarrow> map (\<lambda>i. g (map f [0..<n] ! i)) [a..<b] = map (\<lambda>i. g (f i)) [a..<b]"
  by (rule map_cong) auto

lemma sanitizeUser_no_secrets:
  "password (sanitizeUser u) = None
   \<and> verification_token (sanitizeUser u) = None
   \<and> resetPassword_token (sanitizeUser u) = None"
  by (cases "verification u"; cases "resetPassword u")
     (simp_all add: sanitizeUser_def verification_token_def resetPassword_token_def)

lemma sanitizeUser_keeps:
  "uid (sanitizeUser u) = uid u \<and> username (sanitizeUser u) = username u
   \<and> email (sanitizeUser u) = email u"
  by (cases "verification u"; cases "resetPassword u") (simp_all add: sanitizeUser_def)

lemma sanitizeUser_numbered:
  "sanitizeUser (numbered_user i) =
     (numbered_user i)\<lparr>password := None,
                       verification := Some \<lparr>token = None, expires = None\<rparr>\<rparr>"
  by (simp add: sanitizeUser_def numbered_user_def alice_def)

text \<open>
  C4.  When the store answers, holds at least 50 users and the search string is empty
  (or absent), \<^verbatim>\<open>list\<close> with page 2 answers 200 with the sanitized records at positions
  26 to 50 (indices 25 to 49) of the users sorted by username, ascending: 25 records, after
  a skip of (2 - 1) * 25.  The records of the body are those of these positions by id,
  username and email, and none of them has a password, a \<^verbatim>\<open>verification.token\<close> or a
  \<^verbatim>\<open>resetPassword.token\<close>.
\<close>

theorem list_page_two:
  assumes "find_error w = None" and "\<not> truthy qsearch" and "50 \<le> length (users st)"
  shows "list w st (Some 2) qsearch =
           Reply 200 (UsersBody (map (\<lambda>i. sanitizeUser (sort_key username (users st) ! i)) [25..<50]))
       \<and> mset (sort_key username (users st)) = mset (users st)
       \<and> sorted (map username (sort_key username (users st)))
       \<and> length (reply_users (list w st (Some 2) qsearch)) = 25
       \<and> map uid (reply_users (list w st (Some 2) qsearch))
           = map (\<lambda>i. uid (sort_key username (users st) ! i)) [25..<50]
       \<and> map username (reply_users (list w st (Some 2) qsearch))
           = map (\<lambda>i. username (sort_key username (users st) ! i)) [25..<50]
       \<and> map email (reply_users (list w st (Some 2) qsearch))
           = map (\<lambda>i. email (sort_key username (users st) ! i)) [25..<50]
       \<and> (\<forall>d \<in> set (reply_users (list w st (Some 2) qsearch)).
            password d = None \<and> verification_token d = None \<and> resetPassword_token d = None)"
proof -
  have "take 25 (drop 25 (sort_key username (users st)))
        = map (\<lambda>i. sort_key username (users st) ! i) [25..<25 + 25]"
    using assms(3) by (intro take_drop_nth_range) simp
  then have r: "list w st (Some 2) qsearch =
           Reply 200 (UsersBody (map (\<lambda>i. sanitizeUser (sort_key username (users st) ! i)) [25..<50]))"
    using assms by (simp add: list_page pageLimit_def comp_def)
  have u: "reply_users (list w st (Some 2) qsearch)
           = map (\<lambda>i. sanitizeUser (sort_key username (users st) ! i)) [25..<50]"
    by (simp only: r reply_users.simps)
  have "length (reply_users (list w st (Some 2) qsearch)) = 25"
    by (simp only: u length_map length_upt)
  moreover have "map uid (reply_users (list w st (Some 2) qsearch))
           = map (\<lambda>i. uid (sort_key username (users st) ! i)) [25..<50]"
    by (simp only: u map_map comp_def sanitizeUser_keeps)
  moreover have "map username (reply_users (list w st (Some 2) qsearch))
           = map (\<lambda>i. username (sort_key username (users st) ! i)) [25..<50]"
    by (simp only: u map_map comp_def sanitizeUser_keeps)
  moreover have "map email (reply_users (list w st (Some 2) qsearch))
           = map (\<lambda>i. email (sort_key username (users st) ! i)) [25..<50]"
    by (simp only: u map_map comp_def sanitizeUser_keeps)
  moreover have "\<forall>d \<in> set (reply_users (list w st (Some 2) qsearch)).
            password d = None \<and> verification_token d = None \<and> resetPassword_token d = None"
    by (simp add: u sanitizeUser_no_secrets del: upt_conv_Cons)
  ultimately show ?thesis
    using r by simp
qed

theorem list_page_two_witness:
  "list sample_world big_state (Some 2) None
     = Reply 200 (UsersBody (map (\<lambda>i. (numbered_user i)\<lparr>password := None,
                                         verification := Some \<lparr>token = None, expires = None\<rparr>\<rparr>)
                                 [25..<50]))
   \<and> password (numbered_user 25) = Some ''#old''
   \<and> verification_token (numbered_user 25) = Some ''v-alice''"
proof -
  have w: "find_error sample_world = None"
    by (simp add: sample_world_def)
  have t: "\<not> truthy None"
    by (simp add: truthy_def)
  have l: "50 \<le> length (users big_state)"
    by (simp add: len_big)
  have n: "map (\<lambda>i. sanitizeUser (map numbered_user [0..<52] ! i)) [25..<50]
           = map (\<lambda>i. sanitizeUser (numbered_user i)) [25..<50]"
    by (rule map_nth_upt) simp
  have "list sample_world big_state (Some 2) None
     = Reply 200 (UsersBody (map (\<lambda>i. sanitizeUser (numbered_user i)) [25..<50]))"
    using list_page_two [OF w t l] by (simp only: sort_big n)
  then have "list sample_world big_state (Some 2) None
     = Reply 200 (UsersBody (map (\<lambda>i. (numbered_user i)\<lparr>password := None,
                                         verification := Some \<lparr>token = None, expires = None\<rparr>\<rparr>)
                                 [25..<50]))"
    by (simp only: sanitizeUser_numbered)
  moreover have "password (numbered_user 25) = Some ''#old''
      \<and> verification_token (numbered_user 25) = Some ''v-alice''"
    by (simp add: numbered_user_def alice_def verification_token_def)
  ultimately show ?thesis by simp
qed

subsection \<open>Registration\<close>

lemma sample_policy_abc: "\<not> sample_policy ''abc''"
  by (simp add: sample_policy_def)

lemma sample_policy_strong: "sample_policy ''NewStrongP@ss1''"
  by (simp add: sample_policy_def)

lemma mapUser_email: "email (mapUser w b) = (if truthy (p_email b) then p_email b else None)"
  by (simp add: mapUser_def)

lemma mapUser_password:
  "password (mapUser w b) = (if truthy (p_password b) then p_password b else None)"
  by (simp add: mapUser_def)

lemma register_checks:
  assumes "truthy (p_email b)"
  shows "\<not> allowRegistration cfg \<Longrightarrow> register cfg w st b = (Reply 500 NoBody, st)"
    and "allowRegistration cfg \<Longrightarrow> \<not> isStrongPassword cfg (password (mapUser w b)) \<Longrightarrow>
         register cfg w st b =
           (Reply 400 (ErrorBody (''Invalid password: '' @ invalidPasswordMessage cfg)), st)"
  using assms
  by (auto simp add: register_def Let_def mapUser_email generateProfileImageURL_def truthy_def
      split: option.splits)

lemma register_no_email:
  "\<not> truthy (p_email b) \<Longrightarrow>
   register cfg w st b = (NoReply (TypeError ''toLowerCase of undefined''), st)"
  by (simp add: register_def Let_def mapUser_email generateProfileImageURL_def)

text \<open>
  C5, as the claim has it, fails in its answer: with registration switched off, the weak
  password \<^verbatim>\<open>abc\<close> is answered 500, not 400; and a request without an email is not
  answered at all, since \<^verbatim>\<open>generateProfileImageURL\<close> throws before the password is
  looked at.  The store is untouched in both.
\<close>

theorem register_weak_password_counterexample:
  "\<not> isStrongPassword (sample_config\<lparr>allowRegistration := False\<rparr>) (p_password carol_request)
   \<and> register (sample_config\<lparr>allowRegistration := False\<rparr>) sample_world sample_state carol_request
       = (Reply 500 NoBody, sample_state)
   \<and> \<not> isStrongPassword sample_config (p_password carol_request)
   \<and> register sample_config sample_world sample_state (carol_request\<lparr>p_email := None\<rparr>)
       = (NoReply (TypeError ''toLowerCase of undefined''), sample_state)"
proof -
  have p: "\<not> isStrongPassword (sample_config\<lparr>allowRegistration := False\<rparr>) (p_password carol_request)"
    "\<not> isStrongPassword sample_config (p_password carol_request)"
    by (simp_all add: isStrongPassword_def sample_config_def carol_request_def js_string_def
        sample_policy_abc)
  have "register (sample_config\<lparr>allowRegistration := False\<rparr>) sample_world sample_state carol_request
       = (Reply 500 NoBody, sample_state)"
    by (rule register_checks(1)) (simp_all add: carol_request_def truthy_def sample_config_def)
  moreover have "register sample_config sample_world sample_state (carol_request\<lparr>p_email := None\<rparr>)
       = (NoReply (TypeError ''toLowerCase of undefined''), sample_state)"
    by (rule register_no_email) (simp add: truthy_def)
  ultimately show ?thesis using p by simp
qed

text \<open>
  C5, amended.  For every registration request whose password fails the configured
  strength policy (the policy reads an absent or empty password as the text
  \<^verbatim>\<open>undefined\<close>): no write to the user store is performed, the state after the request
  is the one before it; and when registration is enabled and the request carries an email,
  \<^verbatim>\<open>register\<close> answers 400 with the body
  \<^verbatim>\<open>{error: 'Invalid password: ' + invalidPasswordMessage}\<close>.
\<close>

theorem register_weak_password:
  assumes "\<not> isStrongPassword cfg (if truthy (p_password b) then p_password b else None)"
  shows "snd (register cfg w st b) = st
       \<and> (allowRegistration cfg \<and> truthy (p_email b) \<longrightarrow>
            register cfg w st b =
              (Reply 400 (ErrorBody (''Invalid password: '' @ invalidPasswordMessage cfg)), st))"
proof (cases "truthy (p_email b)")
  case False
  then show ?thesis by (simp add: register_no_email)
next
  case True
  show ?thesis
  proof (cases "allowRegistration cfg")
    case False
    with True show ?thesis by (simp add: register_checks(1))
  next
    case allowed: True
    have "register cfg w st b =
            (Reply 400 (ErrorBody (''Invalid password: '' @ invalidPasswordMessage cfg)), st)"
      using True allowed assms by (simp add: register_checks(2) mapUser_password)
    then show ?thesis by simp
  qed
qed

theorem register_weak_password_witness:
  "register sample_config sample_world sample_state carol_request =
     (Reply 400 (ErrorBody ''Invalid password: use 8 characters of four kinds''), sample_state)
   \<and> snd (register (sample_config\<lparr>allowRegistration := False\<rparr>) sample_world sample_state
            carol_request) = sample_state"
proof -
  have a: "allowRegistration sample_config"
    by (simp add: sample_config_def)
  have e: "truthy (p_email carol_request)"
    by (simp add: carol_request_def truthy_def)
  have p: "\<not> isStrongPassword sample_config
             (if truthy (p_password carol_request) then p_password carol_request else None)"
    by (simp add: isStrongPassword_def sample_config_def carol_request_def js_string_def
        truthy_def sample_policy_abc)
  have q: "\<not> isStrongPassword (sample_config\<lparr>allowRegistration := False\<rparr>)
             (if truthy (p_password carol_request) then p_password carol_request else None)"
    by (simp add: isStrongPassword_def sample_config_def carol_request_def js_string_def
        truthy_def sample_policy_abc)
  have "register sample_config sample_world sample_state carol_request =
     (Reply 400 (ErrorBody ''Invalid password: use 8 characters of four kinds''), sample_state)"
    using register_weak_password [OF p, of sample_world sample_state] a e
    by (simp add: sample_config_def)
  moreover have "snd (register (sample_config\<lparr>allowRegistration := False\<rparr>) sample_world
                       sample_state carol_request) = sample_state"
    using register_weak_password [OF q, of sample_world sample_state] by simp
  ultimately show ?thesis by simp
qed

lemma js_split_not_Nil: "js_split c s \<noteq> []"
  by (induction s) (auto split: list.splits)

lemma js_split_word:
  "c \<notin> set x \<Longrightarrow> js_split c (x @ s) = (x @ hd (js_split c s)) # tl (js_split c s)"
proof (induction x)
  case Nil
  then show ?case using js_split_not_Nil [of c s] by (cases "js_split c s") auto
next
  case (Cons a x)
  then show ?case by auto
qed

lemma js_split_join:
  "xs \<noteq> [] \<Longrightarrow> \<forall>x \<in> set xs. c \<notin> set x \<Longrightarrow> c = CHR '' '' \<Longrightarrow> js_split c (join_words xs) = xs"
proof (induction xs rule: join_words.induct)
  case 1
  then show ?case by simp
next
  case (2 x)
  then show ?case using js_split_word [of c x "[]"] by simp
next
  case (3 x y ys)
  then have "js_split c (join_words (y # ys)) = y # ys" by simp
  moreover have "js_split c (x @ c # join_words (y # ys))
                 = (x @ hd (js_split c (c # join_words (y # ys)))) # tl (js_split c (c # join_words (y # ys)))"
    using 3 by (intro js_split_word) simp
  ultimately show ?case using 3 by simp
qed

lemma indexOf_first: "x \<notin> set pre \<Longrightarrow> indexOf (pre @ x # rest) x = int (length pre)"
proof (induction pre)
  case Nil
  then show ?case by simp
next
  case (Cons a pre)
  then show ?case by (auto simp add: Let_def)
qed

lemma index_word:
  assumes "''index:'' \<notin> set pre"
    and "\<forall>x \<in> set (pre @ [idx] @ post). CHR '' '' \<notin> set x"
  shows "(let errmsgList = js_split CHR '' '' (join_words (pre @ [''index:'', idx] @ post))
          in js_nth errmsgList (indexOf errmsgList ''index:'' + 1)) = Some idx"
proof -
  have "js_split CHR '' '' (join_words (pre @ [''index:'', idx] @ post)) = pre @ [''index:'', idx] @ post"
    using assms(2) by (intro js_split_join) auto
  moreover have "indexOf (pre @ [''index:'', idx] @ post) ''index:'' = int (length pre)"
    using indexOf_first [OF assms(1), of "idx # post"] by simp
  moreover have "nat (int (length pre) + 1) = Suc (length pre)"
    by simp
  ultimately show ?thesis
    by (simp add: js_nth_def nth_append Let_def)
qed

lemma register_reaches_save:
  assumes "allowRegistration cfg"
    and "truthy (p_email b)"
    and "isStrongPassword cfg (password (mapUser w b))"
    and "hash w (password (mapUser w b)) = Resolved h"
    and "save_error w = Some e"
  shows "register cfg w st b = (register_save_failed e, st)"
  using assms
  by (auto simp add: register_def Let_def mapUser_email generateProfileImageURL_def truthy_def
      save_def split: option.splits)

text \<open>
  C6.  For every registration that reaches the save (registration enabled, an email, a
  strong password, the password hashed) and whose save fails with the duplicate-key code
  11000, the message naming the duplicated index by the word after its first
  \<^verbatim>\<open>index:\<close>: the answer is 400 \<^verbatim>\<open>Username is taken\<close> when that index is
  \<^verbatim>\<open>username_1\<close> and 500 for any other index; either way the state of the store is the
  one before the request, so no new record exists.
\<close>

theorem register_duplicate_key:
  assumes "allowRegistration cfg"
    and "truthy (p_email b)"
    and "isStrongPassword cfg (password (mapUser w b))"
    and "hash w (password (mapUser w b)) = Resolved h"
    and "save_error w = Some (MongoError 11000 (join_words (pre @ [''index:'', idx] @ post)))"
    and "''index:'' \<notin> set pre"
    and "\<forall>x \<in> set (pre @ [idx] @ post). CHR '' '' \<notin> set x"
  shows "register cfg w st b =
           (if idx = ''username_1'' then Reply 400 (ErrorBody ''Username is taken'')
            else Reply 500 NoBody, st)"
proof -
  have "register cfg w st b =
          (register_save_failed (MongoError 11000 (join_words (pre @ [''index:'', idx] @ post))), st)"
    using assms(1-5) by (rule register_reaches_save)
  moreover have "register_save_failed (MongoError 11000 (join_words (pre @ [''index:'', idx] @ post)))
        = (if idx = ''username_1'' then Reply 400 (ErrorBody ''Username is taken'')
           else Reply 500 NoBody)"
    using index_word [OF assms(6,7)] by (simp add: register_save_failed_def Let_def)
  ultimately show ?thesis by simp
qed

theorem register_duplicate_key_witness:
  "register sample_config dup_username_world sample_state (carol_request\<lparr>p_password := Some ''NewStrongP@ss1''\<rparr>)
     = (Reply 400 (ErrorBody ''Username is taken''), sample_state)
   \<and> register sample_config dup_email_world sample_state (carol_request\<lparr>p_password := Some ''NewStrongP@ss1''\<rparr>)
     = (Reply 500 NoBody, sample_state)"
proof -
  let ?b = "carol_request\<lparr>p_password := Some ''NewStrongP@ss1''\<rparr>"
  let ?pre = "[''E11000'', ''duplicate'', ''key'', ''error'', ''collection:'', ''app.users'']"
  have a: "allowRegistration sample_config"
    by (simp add: sample_config_def)
  have e: "truthy (p_email ?b)"
    by (simp add: carol_request_def truthy_def)
  have p: "isStrongPassword sample_config (password (mapUser w ?b))" for w
    by (simp add: isStrongPassword_def sample_config_def carol_request_def js_string_def
        truthy_def mapUser_password sample_policy_strong)
  have h: "hash dup_username_world (password (mapUser dup_username_world ?b)) = Resolved ''#NewStrongP@ss1''"
    "hash dup_email_world (password (mapUser dup_email_world ?b)) = Resolved ''#NewStrongP@ss1''"
    by (simp_all add: dup_username_world_def dup_email_world_def sample_world_def mapUser_password
        carol_request_def truthy_def js_string_def)
  have n: "''index:'' \<notin> set ?pre"
    by simp
  have su: "save_error dup_username_world = Some (MongoError 11000
      (join_words (?pre @ [''index:'', ''username_1''] @ [''dup'', ''key:'', ''{'', '':'', ''carol'', ''}''])))"
    by (simp add: dup_username_world_def)
  have se: "save_error dup_email_world = Some (MongoError 11000
      (join_words (?pre @ [''index:'', ''email_1''] @ [''dup'', ''key:'', ''{'', '':'', ''carol@example.org'', ''}''])))"
    by (simp add: dup_email_world_def)
  have "register sample_config dup_username_world sample_state ?b
     = (Reply 400 (ErrorBody ''Username is taken''), sample_state)"
    using register_duplicate_key [OF a e p h(1) su n, of sample_state] by simp
  moreover have "register sample_config dup_email_world sample_state ?b
     = (Reply 500 NoBody, sample_state)"
    using register_duplicate_key [OF a e p h(2) se n, of sample_state] by simp
  ultimately show ?thesis by simp
qed

subsection \<open>Verifying an email\<close>

text \<open>
  C7.  When the store's lookup by verification token returns a user whose
  \<^verbatim>\<open>verification.expires\<close> is in the past (\<^verbatim>\<open>now > expires\<close>), \<^verbatim>\<open>verifyEmail\<close>
  answers 400 with the message \<^verbatim>\<open>Token has expired\<close>, and the state is the one before
  the request: the user's \<^verbatim>\<open>verified\<close> field and every other field of every record
  are unchanged.
\<close>

theorem verifyEmail_expired:
  assumes "find_error w = None"
    and "List.find (\<lambda>d. verification_token d = tok) (users st) = Some u"
    and "verification u = Some v"
    and "expires v = Some e"
    and "e < now w"
  shows "verifyEmail w st tok = (Reply 400 (MessageBody ''Token has expired''), st)"
  using assms
  by (simp add: verifyEmail_def Users_findOne_def js_gt_def verifyEmail_catch_def)

theorem verifyEmail_expired_witness:
  "verification_token bob = Some ''v-bob''
   \<and> map_option expires (verification bob) = Some (Some 500)
   \<and> 500 < now sample_world
   \<and> verifyEmail sample_world sample_state (Some ''v-bob'')
       = (Reply 400 (MessageBody ''Token has expired''), sample_state)
   \<and> map verified (users sample_state) = [False, True]"
proof -
  have f: "find_error sample_world = None"
    by (simp add: sample_world_def)
  have l: "List.find (\<lambda>d. verification_token d = Some ''v-bob'') (users sample_state) = Some bob"
    by (simp add: sample_state_def verification_token_def bob_def)
  have v: "verification bob = Some \<lparr>token = Some ''v-bob'', expires = Some 500\<rparr>"
    by (simp add: bob_def)
  have e: "expires \<lparr>token = Some ''v-bob'', expires = Some 500\<rparr> = Some 500"
    by simp
  have n: "500 < now sample_world"
    by (simp add: sample_world_def)
  have "verifyEmail sample_world sample_state (Some ''v-bob'')
       = (Reply 400 (MessageBody ''Token has expired''), sample_state)"
    using verifyEmail_expired [OF f l v e n] .
  moreover have "map verified (users sample_state) = [False, True]"
    by (simp add: sample_state_def bob_def alice_def)
  ultimately show ?thesis
    using n v by (simp add: verification_token_def)
qed

subsection \<open>Resetting a password\<close>

lemma upsert_distinct:
  "distinct (map uid xs) \<Longrightarrow> u \<in> set xs \<Longrightarrow> uid u' = uid u \<Longrightarrow>
   upsert u' xs = map (\<lambda>d. if d = u then u' else d) xs"
proof (induction xs)
  case Nil
  then show ?case by simp
next
  case (Cons x xs)
  show ?case
  proof (cases "x = u")
    case True
    have "\<forall>d \<in> set xs. d \<noteq> u"
      using Cons.prems(1) True by auto
    then have "map (\<lambda>d. if d = u then u' else d) xs = xs"
      by (simp add: map_idI)
    with True Cons.prems(3) show ?thesis by simp
  next
    case False
    then have "u \<in> set xs" using Cons.prems(2) by simp
    moreover have "uid x \<noteq> uid u" using Cons.prems(1) \<open>u \<in> set xs\<close> by auto
    ultimately show ?thesis using Cons False by simp
  qed
qed

text \<open>
  C8.  A reset request with a password that passes the policy and a token that exactly
  one user \<open>u\<close> carries, that user's \<^verbatim>\<open>resetPassword.expires\<close> being in the future, is
  answered 204 when the store and the hashing helper answer: after it the store holds, in
  the place of \<open>u\<close>, \<open>u\<close> with the hash of the new password as its password, an empty
  \<^verbatim>\<open>resetPassword\<close> object (no token) and \<^verbatim>\<open>verified\<close> true; every other record is as
  before.  Ids are unique in the store.
\<close>

theorem resetPassword_success:
  assumes "find_error w = None"
    and "save_error w = None"
    and "hash w (Some pw) = Resolved h"
    and "pw \<noteq> []"
    and "tok \<noteq> []"
    and "isStrongPassword cfg (Some pw)"
    and "filter (\<lambda>d. resetPassword_token d = Some tok) (users st) = [u]"
    and "map_option expires (resetPassword u) = Some (Some e)"
    and "now w < e"
    and "distinct (map uid (users st))"
  shows "resetPassword_handler cfg w st (Some pw) (Some tok) =
           (Reply 204 NoBody,
            st\<lparr>users := map (\<lambda>d. if d = u
                                 then u\<lparr>password := Some h,
                                        resetPassword := Some \<lparr>token = None, expires = None\<rparr>,
                                        verified := True\<rparr>
                                 else d) (users st)\<rparr>)"
proof -
  obtain r where r: "resetPassword u = Some r" "expires r = Some e"
    using assms(8) by auto
  have "u \<in> set (filter (\<lambda>d. resetPassword_token d = Some tok) (users st))"
    by (simp add: assms(7))
  then have m: "u \<in> set (users st)"
    by simp
  let ?u' = "u\<lparr>password := Some h, resetPassword := Some \<lparr>token = None, expires = None\<rparr>,
               verified := True\<rparr>"
  have "upsert ?u' (users st) = map (\<lambda>d. if d = u then ?u' else d) (users st)"
    using assms(10) m by (rule upsert_distinct) simp
  then show ?thesis
    using assms(1-7,9) r
    by (simp add: resetPassword_handler_def truthy_def Users_find_def js_gt_def save_def Let_def)
qed

theorem resetPassword_success_witness:
  "resetPassword_handler sample_config sample_world sample_state
       (Some ''NewStrongP@ss1'') (Some ''r-bob'')
     = (Reply 204 NoBody,
        \<lparr>users = [bob\<lparr>password := Some ''#NewStrongP@ss1'',
                       resetPassword := Some \<lparr>token = None, expires = None\<rparr>,
                       verified := True\<rparr>, alice],
         outbox = []\<rparr>)"
proof -
  have f: "find_error sample_world = None" and s: "save_error sample_world = None"
    by (simp_all add: sample_world_def)
  have h: "hash sample_world (Some ''NewStrongP@ss1'') = Resolved ''#NewStrongP@ss1''"
    by (simp add: sample_world_def js_string_def)
  have p: "''NewStrongP@ss1'' \<noteq> []" and t: "''r-bob'' \<noteq> []"
    by simp_all
  have g: "isStrongPassword sample_config (Some ''NewStrongP@ss1'')"
    by (simp add: isStrongPassword_def sample_config_def js_string_def sample_policy_strong)
  have m: "filter (\<lambda>d. resetPassword_token d = Some ''r-bob'') (users sample_state) = [bob]"
    by (simp add: sample_state_def resetPassword_token_def bob_def alice_def)
  have e: "map_option expires (resetPassword bob) = Some (Some 2000)"
    by (simp add: bob_def)
  have n: "now sample_world < 2000"
    by (simp add: sample_world_def)
  have d: "distinct (map uid (users sample_state))"
    by (simp add: sample_state_def bob_def alice_def)
  have ne: "alice \<noteq> bob"
    by (simp add: alice_def bob_def)
  show ?thesis
    using resetPassword_success [OF f s h p t g m e n d] ne
    by (simp add: sample_state_def)
qed

subsection \<open>Propagating subroles\<close>

text \<open>
  C9.  For every state of the store, parent role and list of subroles: once the bulk
  update of \<^verbatim>\<open>flushSubroles\<close> has gone through (the store did not refuse it), the store
  holds the same number of records, each record whose role is the parent role is the
  record it was with exactly the given subroles, each other record is untouched, and so
  every persisted user of the parent role has exactly those subroles.
\<close>

theorem flushSubroles_frame:
  assumes "save_error w = None"
  shows "length (users (flushSubroles w st p s)) = length (users st)
       \<and> (\<forall>i < length (users st).
            (role (users st ! i) = Some p \<longrightarrow>
               users (flushSubroles w st p s) ! i = (users st ! i)\<lparr>subroles := s\<rparr>)
          \<and> (role (users st ! i) \<noteq> Some p \<longrightarrow>
               users (flushSubroles w st p s) ! i = users st ! i))
       \<and> (\<forall>d \<in> set (users (flushSubroles w st p s)). role d = Some p \<longrightarrow> subroles d = s)
       \<and> outbox (flushSubroles w st p s) = outbox st"
  using assms by (auto simp add: flushSubroles_def Users_update_multi_def)

theorem flushSubroles_frame_witness:
  "flushSubroles sample_world sample_state ''editor'' [''content'', ''review'']
     = \<lparr>users = [bob\<lparr>subroles := [''content'', ''review'']\<rparr>, alice], outbox = []\<rparr>"
proof -
  have s: "save_error sample_world = None"
    by (simp add: sample_world_def)
  have u: "users sample_state = [bob, alice]" and o: "outbox sample_state = []"
    by (simp_all add: sample_state_def)
  have r: "role bob = Some ''editor''" "role alice \<noteq> Some ''editor''"
    by (simp_all add: bob_def alice_def)
  let ?st = "flushSubroles sample_world sample_state ''editor'' [''content'', ''review'']"
  note t = flushSubroles_frame [OF s, of sample_state "''editor''" "[''content'', ''review'']"]
  have l: "length (users ?st) = 2"
    using t u by simp
  have "users ?st ! 0 = bob\<lparr>subroles := [''content'', ''review'']\<rparr>"
    using t u r by auto
  moreover have "users ?st ! 1 = alice"
    using t u r by auto
  ultimately have "users ?st = [bob\<lparr>subroles := [''content'', ''review'']\<rparr>, alice]"
    using l by (auto simp add: list_eq_iff_nth_eq less_2_cases_iff)
  moreover have "outbox ?st = []"
    using t o by simp
  ultimately show ?thesis
    by (cases ?st) simp
qed

subsection \<open>Requesting a password-change email\<close>

text \<open>
  C10.  For every user \<open>u\<close> that \<^verbatim>\<open>requestChangePasswordEmail\<close> processes through to
  its mail (the one user with the requested email, a \<^verbatim>\<open>verification\<close> object on it, the
  store and the mailer answering): the answer is 204; the record persisted for \<open>u\<close>
  carries the freshly generated token as its \<^verbatim>\<open>resetPassword.token\<close>; the one mail sent
  goes to \<open>u\<close> and its link ends in \<open>u\<close>'s \<^verbatim>\<open>verification.token\<close>, as a text, not in
  the generated token.  Hence, whenever the verification token so written differs from the
  generated reset token, the token of the mailed link is not the token a later
  \<^verbatim>\<open>resetPassword\<close> looks up on \<open>u\<close>, and the mail's text is not the one the reset token
  would give.
\<close>

theorem requestChangePasswordEmail_link_token:
  assumes "find_error w = None"
    and "save_error w = None"
    and "mail_error w = None"
    and "em \<noteq> []"
    and "filter (\<lambda>d. email d = Some em) (users st) = [u]"
    and "verification u = Some v"
  shows "fst (requestChangePasswordEmail cfg w st (Some em)) = Reply 204 NoBody
       \<and> users (snd (requestChangePasswordEmail cfg w st (Some em)))
           = upsert (u\<lparr>resetPassword := Some \<lparr>token = Some (unique_token w),
                                              expires = Some (now w + emailVerificationTTL cfg)\<rparr>\<rparr>)
               (users st)
       \<and> outbox (snd (requestChangePasswordEmail cfg w st (Some em)))
           = outbox st @
             [\<lparr>mail_from = email_from cfg, mail_to = Some em,
               mail_text = ''Change your password by going here: '' @ generated_url w
                           @ ''/reset-password;token='' @ js_string (verification_token u),
               mail_subject = ''Change Password''\<rparr>]
       \<and> (js_string (verification_token u) \<noteq> unique_token w \<longrightarrow>
            resetPassword_token (u\<lparr>resetPassword := Some \<lparr>token = Some (unique_token w),
                                     expires = Some (now w + emailVerificationTTL cfg)\<rparr>\<rparr>)
              \<noteq> Some (js_string (verification_token u))
          \<and> mail_text (last (outbox (snd (requestChangePasswordEmail cfg w st (Some em)))))
              \<noteq> ''Change your password by going here: '' @ generated_url w
                  @ ''/reset-password;token='' @ unique_token w)"
proof -
  have "u \<in> set (filter (\<lambda>d. email d = Some em) (users st))"
    by (simp add: assms(5))
  then have e: "email u = Some em"
    by simp
  let ?u = "u\<lparr>resetPassword := Some \<lparr>token = Some (unique_token w),
                                     expires = Some (now w + emailVerificationTTL cfg)\<rparr>\<rparr>"
  let ?m = "\<lparr>mail_from = email_from cfg, mail_to = Some em,
             mail_text = ''Change your password by going here: '' @ generated_url w
                         @ ''/reset-password;token='' @ js_string (verification_token u),
             mail_subject = ''Change Password''\<rparr>"
  have r: "requestChangePasswordEmail cfg w st (Some em)
           = (Reply 204 NoBody, st\<lparr>users := upsert ?u (users st), outbox := outbox st @ [?m]\<rparr>)"
    using assms e
    by (simp add: requestChangePasswordEmail_def truthy_def Users_find_def save_def Let_def
        sendPasswordChangeEmail_def sendMail_def verification_token_def)
  show ?thesis
    by (simp add: r resetPassword_token_def)
qed

theorem requestChangePasswordEmail_link_token_witness:
  "requestChangePasswordEmail sample_config sample_world sample_state (Some ''bob@example.org'')
     = (Reply 204 NoBody,
        \<lparr>users = [bob\<lparr>resetPassword := Some \<lparr>token = Some ''tok-new'', expires = Some 3601000\<rparr>\<rparr>,
                  alice],
         outbox = [\<lparr>mail_from = ''noreply@example.org'', mail_to = Some ''bob@example.org'',
                    mail_text = ''Change your password by going here: https://example.org/reset-password;token=v-bob'',
                    mail_subject = ''Change Password''\<rparr>]\<rparr>)"
proof -
  have f: "find_error sample_world = None" and s: "save_error sample_world = None"
    and m: "mail_error sample_world = None"
    by (simp_all add: sample_world_def)
  have n: "''bob@example.org'' \<noteq> []"
    by simp
  have l: "filter (\<lambda>d. email d = Some ''bob@example.org'') (users sample_state) = [bob]"
    by (simp add: sample_state_def bob_def alice_def)
  have v: "verification bob = Some \<lparr>token = Some ''v-bob'', expires = Some 500\<rparr>"
    by (simp add: bob_def)
  let ?r = "requestChangePasswordEmail sample_config sample_world sample_state (Some ''bob@example.org'')"
  note t = requestChangePasswordEmail_link_token [OF f s m n l v, of sample_config]
  have a: "fst ?r = Reply 204 NoBody"
    using t by simp
  have b: "users (snd ?r)
      = [bob\<lparr>resetPassword := Some \<lparr>token = Some ''tok-new'', expires = Some 3601000\<rparr>\<rparr>, alice]"
    using t by (simp add: sample_state_def sample_world_def sample_config_def bob_def)
  have c: "outbox (snd ?r)
      = [\<lparr>mail_from = ''noreply@example.org'', mail_to = Some ''bob@example.org'',
          mail_text = ''Change your password by going here: https://example.org/reset-password;token=v-bob'',
          mail_subject = ''Change Password''\<rparr>]"
    using t v
    by (simp add: sample_state_def sample_world_def sample_config_def verification_token_def
        js_string_def)
  show ?thesis
    using a b c by (cases ?r; cases "snd ?r") auto
qed

end
